theory Spec2Isabelle
  imports Main "HOL-Library.Word" "HOL-Library.Sublist" "HOL-Library.Multiset"
begin

unbundle bit_operations_syntax

section \<open>SHA-1, as computed by \<^verbatim>\<open>hashlib.sha1(...).hexdigest()\<close>\<close>

text \<open>
  \<^verbatim>\<open>formula_to_image\<close> names every artifact of a formula after the first 20 hexadecimal
  digits of the SHA-1 digest of the formula. The digest is written out in full (padding,
  message schedule, four phases of twenty rounds on 32-bit words), so that the addresses
  of concrete formulas can be computed and compared.
\<close>

type_synonym u32 = "32 word"

definition rotl :: "nat \<Rightarrow> u32 \<Rightarrow> u32" where
  "rotl n x = push_bit n x OR drop_bit (32 - n) x"

definition len_bytes :: "nat \<Rightarrow> nat list" where
  "len_bytes n = map (\<lambda>s. (n div s) mod 256)
     [72057594037927936, 281474976710656, 1099511627776, 4294967296, 16777216, 65536, 256, 1]"

definition sha1_pad :: "string \<Rightarrow> nat list" where
  "sha1_pad s = (let n = length s in
     map of_char s @ [128] @ replicate ((119 - n mod 64) mod 64) 0 @ len_bytes (8 * n))"

fun be_words :: "nat list \<Rightarrow> u32 list" where
  "be_words (a # b # c # d # bs) =
     word_of_nat (((a * 256 + b) * 256 + c) * 256 + d) # be_words bs"
| "be_words _ = []"

text \<open>The schedule is built newest word first: \<open>ws ! 2\<close> is \<open>W[t-3]\<close>, \<open>ws ! 15\<close> is \<open>W[t-16]\<close>.\<close>

fun schedule :: "nat \<Rightarrow> u32 list \<Rightarrow> u32 list" where
  "schedule 0 ws = ws"
| "schedule (Suc n) ws =
     schedule n (rotl 1 (ws ! 2 XOR ws ! 7 XOR ws ! 13 XOR ws ! 15) # ws)"

definition sha1_ch :: "u32 \<Rightarrow> u32 \<Rightarrow> u32 \<Rightarrow> u32" where
  "sha1_ch b c d = (b AND c) OR (NOT b AND d)"

definition sha1_parity :: "u32 \<Rightarrow> u32 \<Rightarrow> u32 \<Rightarrow> u32" where
  "sha1_parity b c d = b XOR c XOR d"

definition sha1_maj :: "u32 \<Rightarrow> u32 \<Rightarrow> u32 \<Rightarrow> u32" where
  "sha1_maj b c d = (b AND c) OR (b AND d) OR (c AND d)"

type_synonym sha1_state = "u32 \<times> u32 \<times> u32 \<times> u32 \<times> u32"

text \<open>One phase: the rounds that share a mixing function \<open>f\<close> and a constant \<open>k\<close>.\<close>

fun sha1_rounds :: "(u32 \<Rightarrow> u32 \<Rightarrow> u32 \<Rightarrow> u32) \<Rightarrow> u32 \<Rightarrow> u32 list \<Rightarrow> sha1_state \<Rightarrow> sha1_state"
  where
  "sha1_rounds f k [] st = st"
| "sha1_rounds f k (w # ws) (a, b, c, d, e) =
     sha1_rounds f k ws (rotl 5 a + f b c d + e + k + w, a, rotl 30 b, c, d)"

definition sha1_block :: "sha1_state \<Rightarrow> u32 list \<Rightarrow> sha1_state" where
  "sha1_block st ws =
     (let W = rev (schedule 64 (rev ws));
          st1 = sha1_rounds sha1_ch 0x5A827999 (take 20 W) st;
          st2 = sha1_rounds sha1_parity 0x6ED9EBA1 (take 20 (drop 20 W)) st1;
          st3 = sha1_rounds sha1_maj 0x8F1BBCDC (take 20 (drop 40 W)) st2;
          st4 = sha1_rounds sha1_parity 0xCA62C1D6 (drop 60 W) st3
      in case (st, st4) of ((h0, h1, h2, h3, h4), (a, b, c, d, e)) \<Rightarrow>
           (h0 + a, h1 + b, h2 + c, h3 + d, h4 + e))"

fun sha1_blocks :: "sha1_state \<Rightarrow> u32 list \<Rightarrow> sha1_state" where
  "sha1_blocks st (w0 # w1 # w2 # w3 # w4 # w5 # w6 # w7 # w8 # w9 # w10 # w11 # w12 # w13 #
                   w14 # w15 # ws) =
     sha1_blocks
       (sha1_block st [w0, w1, w2, w3, w4, w5, w6, w7, w8, w9, w10, w11, w12, w13, w14, w15]) ws"
| "sha1_blocks st _ = st"

definition sha1 :: "string \<Rightarrow> sha1_state" where
  "sha1 s = sha1_blocks (0x67452301, 0xEFCDAB89, 0x98BADCFE, 0x10325476, 0xC3D2E1F0)
              (be_words (sha1_pad s))"

definition hex_digit :: "nat \<Rightarrow> char" where
  "hex_digit n = ''0123456789abcdef'' ! n"

definition hex_word :: "u32 \<Rightarrow> string" where
  "hex_word w = map (\<lambda>s. hex_digit (unat (drop_bit s w AND 15))) [28, 24, 20, 16, 12, 8, 4, 0]"

definition sha1_hexdigest :: "string \<Rightarrow> string" where
  "sha1_hexdigest s =
     (case sha1 s of (a, b, c, d, e) \<Rightarrow> concat (map hex_word [a, b, c, d, e]))"

section \<open>Python values used by both scripts\<close>

text \<open>
  Strings are lists of 8-bit characters. \<^verbatim>\<open>formula2image.py\<close> holds a \<^verbatim>\<open>print\<close> statement
  (line 145) and therefore only compiles as Python 2, where the formulas read from the list
  file are byte strings; \<^verbatim>\<open>latex2formulas.py\<close> is valid in both Python 2 and Python 3, and the
  two differ in what the \<^verbatim>\<open>re\<close> module does with the escape \<^verbatim>\<open>\l\<close>, so its model takes the
  interpreter version as a parameter. Every exception the modelled code can raise is a
  value of \<open>exn\<close>; a function that can raise returns \<open>exn + 'a\<close>.
\<close>

datatype exn = UnicodeError | IOError | OSError | ValueError | IndexError | ReError

datatype py_version = Py2 | Py3

definition bs :: char where
  "bs = CHR 0x5C"

definition nl :: char where
  "nl = CHR 0x0A"

definition cr :: char where
  "cr = CHR 0x0D"

text \<open>\<^verbatim>\<open>str.isspace\<close> of a character: the six ASCII blanks for a Python 2 byte string; Python 3
  adds the separators \<^verbatim>\<open>\x1c\<close> to \<^verbatim>\<open>\x1f\<close>, \<^verbatim>\<open>\x85\<close> and \<^verbatim>\<open>\xa0\<close>.\<close>

definition is_space :: "py_version \<Rightarrow> char \<Rightarrow> bool" where
  "is_space v c =
     (let n = (of_char c :: nat) in
        (9 \<le> n \<and> n \<le> 13) \<or> n = 32 \<or>
        (v = Py3 \<and> ((28 \<le> n \<and> n \<le> 31) \<or> n = 133 \<or> n = 160)))"

text \<open>\<^verbatim>\<open>s.strip()\<close> and \<^verbatim>\<open>s.strip(chars)\<close>.\<close>

definition strip_where :: "(char \<Rightarrow> bool) \<Rightarrow> string \<Rightarrow> string" where
  "strip_where P s = rev (dropWhile P (rev (dropWhile P s)))"

definition py_strip :: "py_version \<Rightarrow> string \<Rightarrow> string" where
  "py_strip v s = strip_where (is_space v) s"

definition strip_chars :: "string \<Rightarrow> string \<Rightarrow> string" where
  "strip_chars chars s = strip_where (\<lambda>c. c \<in> set chars) s"

text \<open>\<^verbatim>\<open>s.replace(c, "")\<close> for a one-character \<^verbatim>\<open>c\<close>.\<close>

definition remove_char :: "char \<Rightarrow> string \<Rightarrow> string" where
  "remove_char c s = filter (\<lambda>x. x \<noteq> c) s"

text \<open>\<^verbatim>\<open>sep.join(xs)\<close>.\<close>

fun py_join :: "string \<Rightarrow> string list \<Rightarrow> string" where
  "py_join sep [] = []"
| "py_join sep [x] = x"
| "py_join sep (x # y # ys) = x @ sep @ py_join sep (y # ys)"

text \<open>\<^verbatim>\<open>s.split(c)\<close> for a one-character separator: never the empty list.\<close>

fun py_split :: "char \<Rightarrow> string \<Rightarrow> string list" where
  "py_split c [] = [[]]"
| "py_split c (x # xs) =
     (if x = c then [] # py_split c xs
      else (case py_split c xs of
              [] \<Rightarrow> [[x]]
            | y # ys \<Rightarrow> (x # y) # ys))"

text \<open>\<^verbatim>\<open>str(n)\<close> of a non-negative integer.\<close>

definition digit_char :: "nat \<Rightarrow> char" where
  "digit_char d = char_of (48 + d)"

fun py_str :: "nat \<Rightarrow> string" where
  "py_str n = (if n < 10 then [digit_char n] else py_str (n div 10) @ [digit_char (n mod 10)])"

declare py_str.simps [simp del]

text \<open>\<^verbatim>\<open>int(s)\<close> of a string: blanks around, an optional sign, then decimal digits and nothing
  else; anything else raises \<^verbatim>\<open>ValueError\<close>.\<close>

definition is_digit :: "char \<Rightarrow> bool" where
  "is_digit c = (48 \<le> (of_char c :: nat) \<and> (of_char c :: nat) \<le> 57)"

definition digits_value :: "string \<Rightarrow> nat" where
  "digits_value ds = foldl (\<lambda>acc c. 10 * acc + (of_char c - 48)) 0 ds"

definition parse_digits :: "string \<Rightarrow> exn + nat" where
  "parse_digits ds = (if ds \<noteq> [] \<and> list_all is_digit ds then Inr (digits_value ds) else Inl ValueError)"

definition py_int_str :: "string \<Rightarrow> exn + int" where
  "py_int_str s =
     (case py_strip Py2 s of
        [] \<Rightarrow> Inl ValueError
      | c # cs \<Rightarrow>
          if c = CHR ''-'' then map_sum id (\<lambda>n. - int n) (parse_digits cs)
          else if c = CHR ''+'' then map_sum id int (parse_digits cs)
          else map_sum id int (parse_digits (c # cs)))"

section \<open>\<^verbatim>\<open>formula2image.py\<close>: rendering one formula\<close>

text \<open>
  The working directory is a list of named files with their contents. Everything outside the
  program is a parameter: whether a file can be opened for writing, and what an external
  command does to the directory (it returns an exit code, or \<^verbatim>\<open>subprocess.call\<close> raises
  \<^verbatim>\<open>OSError\<close>, as it does when the executable is missing). The world also records the
  argument vector of every external command that was started.
\<close>

type_synonym directory = "(string \<times> string) list"

record world =
  files :: directory
  invoked :: "string list list"

record tools =
  can_write :: "directory \<Rightarrow> string \<Rightarrow> bool"
  run_tool :: "string list \<Rightarrow> directory \<Rightarrow> exn + (int \<times> directory)"

type_synonym render_result = "string list list"

definition isfile :: "string \<Rightarrow> world \<Rightarrow> bool" where
  "isfile name w = (name \<in> set (map fst (files w)))"

text \<open>\<^verbatim>\<open>with open(name, "w") as f: f.write(content)\<close>.\<close>

definition write_file :: "tools \<Rightarrow> string \<Rightarrow> string \<Rightarrow> world \<Rightarrow> (exn + unit) \<times> world" where
  "write_file T name content w =
     (if can_write T (files w) name
      then (Inr (), w\<lparr>files := (name, content) # filter (\<lambda>(n, c). n \<noteq> name) (files w)\<rparr>)
      else (Inl IOError, w))"

text \<open>\<^verbatim>\<open>subprocess.call(argv, ...)\<close>.\<close>

definition call :: "tools \<Rightarrow> string list \<Rightarrow> world \<Rightarrow> (exn + int) \<times> world" where
  "call T argv w =
     (case run_tool T argv (files w) of
        Inl e \<Rightarrow> (Inl e, w\<lparr>invoked := invoked w @ [argv]\<rparr>)
      | Inr (code, fs) \<Rightarrow> (Inr code, \<lparr>files = fs, invoked = invoked w @ [argv]\<rparr>))"

text \<open>\<^verbatim>\<open>os.system("rm -rf " + p + "*")\<close> and \<^verbatim>\<open>glob.glob(p + "*")\<close>, for a \<^verbatim>\<open>p\<close> without shell
  or glob metacharacters.\<close>

definition rm_rf_prefix :: "string \<Rightarrow> world \<Rightarrow> world" where
  "rm_rf_prefix p w = w\<lparr>files := filter (\<lambda>(n, c). \<not> prefix p n) (files w)\<rparr>"

definition glob_prefix :: "string \<Rightarrow> world \<Rightarrow> string list" where
  "glob_prefix p w = filter (prefix p) (map fst (files w))"

text \<open>\<^verbatim>\<open>BASIC_SKELETON % formula\<close>: the template has a single \<^verbatim>\<open>%s\<close>.\<close>

definition skeleton_head :: string where
  "skeleton_head =
     [nl] @ bs # ''documentclass[12pt]{article}'' @ [nl] @ bs # ''pagestyle{empty}'' @ [nl] @
     bs # ''usepackage{amsmath}'' @ [nl] @ bs # ''begin{document}'' @ [nl, nl] @
     bs # ''begin{displaymath}'' @ [nl]"

definition skeleton_tail :: string where
  "skeleton_tail =
     [nl] @ bs # ''end{displaymath}'' @ [nl, nl] @ bs # ''end{document}'' @ [nl]"

definition BASIC_SKELETON :: "string \<Rightarrow> string" where
  "BASIC_SKELETON formula = skeleton_head @ formula @ skeleton_tail"

text \<open>\<^verbatim>\<open>formula.encode('utf-8')\<close> on a Python 2 byte string decodes it as ASCII first and
  raises on any byte above 127; otherwise the bytes are unchanged.\<close>

definition encode_utf8 :: "string \<Rightarrow> exn + string" where
  "encode_utf8 s = (if list_all (\<lambda>c. (of_char c :: nat) < 128) s then Inr s else Inl UnicodeError)"

text \<open>The content address: \<^verbatim>\<open>hashlib.sha1(formula.encode('utf-8')).hexdigest()[:20]\<close>.\<close>

definition address :: "string \<Rightarrow> exn + string" where
  "address formula = map_sum id (\<lambda>b. take 20 (sha1_hexdigest b)) (encode_utf8 formula)"

definition pdflatex_argv :: "string \<Rightarrow> string list" where
  "pdflatex_argv full_name =
     [''pdflatex'', ''-interaction=nonstopmode'', ''-halt-on-error'', full_name @ ''.tex'']"

definition pdftoppm_argv :: "string \<Rightarrow> string list" where
  "pdftoppm_argv full_name =
     [''pdftoppm'', full_name @ ''.pdf'', full_name, ''-png'', ''-singlefile'']"

text \<open>The part of \<^verbatim>\<open>formula_to_image\<close> after the source artifact is written (lines 86-110).\<close>

definition run_pipeline :: "tools \<Rightarrow> string \<Rightarrow> world \<Rightarrow> (exn + render_result option) \<times> world" where
  "run_pipeline T full_name w1 =
     (case call T (pdflatex_argv full_name) w1 of
        (Inl e, w2) \<Rightarrow> (Inl e, w2)
      | (Inr code, w2) \<Rightarrow>
          if code \<noteq> 0 then (Inr None, rm_rf_prefix full_name w2)
          else
            (case call T (pdftoppm_argv full_name) w2 of
               (Inl e, w3) \<Rightarrow> (Inl e, w3)
             | (Inr code', w3) \<Rightarrow>
                 if code' \<noteq> 0 then (Inr None, rm_rf_prefix full_name w3)
                 else
                   (let resulted_images = glob_prefix (full_name @ ''-'') w3 in
                      if length resulted_images > 1
                      then (Inr None, fold rm_rf_prefix resulted_images w3)
                      else (Inr (Some [[full_name, ''basic'']]), w3))))"

definition formula_to_image :: "tools \<Rightarrow> string \<Rightarrow> world \<Rightarrow> (exn + render_result option) \<times> world"
  where
  "formula_to_image T formula w =
     (case address formula of
        Inl e \<Rightarrow> (Inr None, w)
      | Inr name \<Rightarrow>
          if isfile (name @ ''.png'') w then (Inr None, w)
          else
            (let full_name = name @ ''_basic'';
                 formula' = strip_chars ''%'' formula;
                 latex_str = BASIC_SKELETON formula'
             in case write_file T (full_name @ ''.tex'') latex_str w of
                  (Inl e, w1) \<Rightarrow> (Inl e, w1)
                | (Inr u, w1) \<Rightarrow> run_pipeline T full_name w1))"

section \<open>\<^verbatim>\<open>formula2image.py\<close>: the two list files (\<^verbatim>\<open>main\<close>, lines 159-176)\<close>

fun build_lists ::
  "(string \<times> render_result option) list \<Rightarrow> nat \<Rightarrow> string list \<Rightarrow> string list \<Rightarrow>
     string list \<times> string list" where
  "build_lists [] ctr new_dataset_lines new_formulas = (new_dataset_lines, new_formulas)"
| "build_lists ((formula, None) # zipped) ctr new_dataset_lines new_formulas =
     build_lists zipped ctr new_dataset_lines new_formulas"
| "build_lists ((formula, Some setups) # zipped) ctr new_dataset_lines new_formulas =
     build_lists zipped (ctr + 1)
       (new_dataset_lines @ map (\<lambda>rendering_setup. py_str ctr @ '' '' @ py_join '' '' rendering_setup) setups)
       (new_formulas @ [formula])"

definition new_dataset_lines :: "(string \<times> render_result option) list \<Rightarrow> string list" where
  "new_dataset_lines zipped = fst (build_lists zipped 0 [] [])"

definition new_formulas :: "(string \<times> render_result option) list \<Rightarrow> string list" where
  "new_formulas zipped = snd (build_lists zipped 0 [] [])"

text \<open>The contents written to \<^verbatim>\<open>im2latex.lst\<close> and \<^verbatim>\<open>im2latex_formulas.lst\<close>.\<close>

definition DATASET_FILE :: "(string \<times> render_result option) list \<Rightarrow> string" where
  "DATASET_FILE zipped = py_join [nl] (new_dataset_lines zipped)"

definition NEW_FORMULA_FILE :: "(string \<times> render_result option) list \<Rightarrow> string" where
  "NEW_FORMULA_FILE zipped = py_join [nl] (new_formulas zipped)"

section \<open>\<^verbatim>\<open>formula2image.py\<close>: \<^verbatim>\<open>check_validity\<close>\<close>

text \<open>\<^verbatim>\<open>max_id\<close> starts as the integer 0 and is then overwritten with the first field of every
  non-empty row, a string.\<close>

datatype pyval = IntVal int | StrVal string

fun py_int :: "pyval \<Rightarrow> exn + int" where
  "py_int (IntVal i) = Inr i"
| "py_int (StrVal s) = py_int_str s"

fun check_rows :: "string list \<Rightarrow> string list \<Rightarrow> pyval \<Rightarrow> nat \<Rightarrow> exn + (pyval \<times> nat)" where
  "check_rows [] formula_images max_id missing_files = Inr (max_id, missing_files)"
| "check_rows (line # dataset_lines) formula_images max_id missing_files =
     (if line = [] then check_rows dataset_lines formula_images max_id missing_files
      else
        (case py_split CHR '' '' line of
           s0 # s1 # rest \<Rightarrow>
             check_rows dataset_lines formula_images (StrVal s0)
               (if s1 @ ''.png'' \<notin> set formula_images then missing_files + 1 else missing_files)
         | _ \<Rightarrow> Inl IndexError))"

text \<open>What \<^verbatim>\<open>check_validity\<close> prints: the pair of the mismatch message, when it is printed,
  and the number of missing files.\<close>

record report =
  mismatch :: "(int \<times> nat) option"
  missing :: nat

definition check_validity :: "string \<Rightarrow> string \<Rightarrow> string list \<Rightarrow> exn + report" where
  "check_validity dataset_file formula_file formula_images =
     (let dataset_lines = py_split nl dataset_file;
          formula_lines = py_split nl formula_file
      in case check_rows dataset_lines formula_images (IntVal 0) 0 of
           Inl e \<Rightarrow> Inl e
         | Inr (max_id, missing_files) \<Rightarrow>
             (case py_int max_id of
                Inl e \<Rightarrow> Inl e
              | Inr m \<Rightarrow>
                  Inr \<lparr>mismatch = (if m + 1 \<noteq> int (length formula_lines)
                                   then Some (m, length formula_lines) else None),
                       missing = missing_files\<rparr>))"

text \<open>The maximum id over all rows, as the validator's message names it.\<close>

definition row_ids :: "string list \<Rightarrow> (exn + int) list" where
  "row_ids dataset_lines =
     map (\<lambda>line. py_int_str (hd (py_split CHR '' '' line))) (filter (\<lambda>line. line \<noteq> []) dataset_lines)"

section \<open>\<^verbatim>\<open>latex2formulas.py\<close>: \<^verbatim>\<open>get_formulas\<close>\<close>

text \<open>
  Each of the five \<^verbatim>\<open>PATTERNS\<close> is an opening delimiter, the lazy group \<^verbatim>\<open>(.*?)\<close> and a
  closing delimiter, matched with \<^verbatim>\<open>re.DOTALL\<close>; a pattern is modelled by its two
  delimiters.
\<close>

definition PATTERNS :: "(string \<times> string) list" where
  "PATTERNS =
     [(bs # ''begin{equation}'', bs # ''end{equation}''),
      (''$$'', ''$$''),
      (''$'', ''$''),
      ([bs, CHR ''[''], [bs, CHR '']'']),
      ([bs, CHR ''(''], [bs, CHR '')''])]"

definition MIN_LENGTH :: nat where
  "MIN_LENGTH = 40"

definition MAX_LENGTH :: nat where
  "MAX_LENGTH = 1024"

text \<open>The first occurrence of \<open>pat\<close> in \<open>s\<close>: the text before it and the text after it.\<close>

fun find_sub :: "string \<Rightarrow> string \<Rightarrow> (string \<times> string) option" where
  "find_sub pat [] = (if pat = [] then Some ([], []) else None)"
| "find_sub pat (c # cs) =
     (if prefix pat (c # cs) then Some ([], drop (length pat) (c # cs))
      else map_option (\<lambda>(before, after). (c # before, after)) (find_sub pat cs))"

text \<open>
  \<^verbatim>\<open>re.findall(pattern, latex, re.DOTALL)\<close> for a pattern \<^verbatim>\<open>open(.*?)close\<close>: the scan goes
  left to right; where the opening delimiter matches, the group is the text up to the
  nearest closing delimiter and the scan resumes after it; where no closing delimiter
  follows, the scan moves on by one character. The result is the list of groups.
\<close>

function re_findall :: "string \<times> string \<Rightarrow> string \<Rightarrow> string list" where
  "re_findall (opn, cls) s =
     (if s = [] \<or> opn = [] then []
      else if prefix opn s then
        (case find_sub cls (drop (length opn) s) of
           Some (body, rest) \<Rightarrow> body # re_findall (opn, cls) rest
         | None \<Rightarrow> re_findall (opn, cls) (tl s))
      else re_findall (opn, cls) (tl s))"
  by pat_completeness auto

termination
proof (relation "measure (\<lambda>(p, s). length s)", goal_cases)
  case 1
  show ?case by simp
next
  case 2
  then show ?case by (auto simp: neq_Nil_conv)
next
  case (3 opn cls s x body rest)
  have after_le: "length r \<le> length t" if "find_sub cls t = Some (b, r)" for t b r
    using that
  proof (induction t arbitrary: b)
    case Nil
    then show ?case by (simp split: if_splits)
  next
    case (Cons c cs)
    then show ?case by (fastforce split: if_splits)
  qed
  from 3 have "find_sub cls (drop (length opn) s) = Some (body, rest)" by simp
  then have "length rest \<le> length (drop (length opn) s)" by (rule after_le)
  moreover from 3 have "length (drop (length opn) s) < length s" by (cases s; cases opn) auto
  ultimately show ?case by simp
next
  case 4
  then show ?case by (auto simp: neq_Nil_conv)
qed

declare re_findall.simps [simp del]

text \<open>
  \<^verbatim>\<open>re.sub('\\label{.*}', '', x)\<close>. The pattern is not a raw string, so the regular
  expression is \<^verbatim>\<open>\label{.*}\<close>, whose first token is the escape \<^verbatim>\<open>\l\<close>. Python 2 (and
  Python 3 before 3.6) reads an unknown escape of a letter as the letter itself: the
  expression is then the text \<^verbatim>\<open>label{\<close>, a greedy \<^verbatim>\<open>.*\<close> that does not cross a newline, and
  \<^verbatim>\<open>}\<close>, so a match runs from \<^verbatim>\<open>label{\<close> to the last \<^verbatim>\<open>}\<close> of the line. From Python 3.6 on the
  escape is an error and \<^verbatim>\<open>re.sub\<close> raises \<^verbatim>\<open>re.error\<close> (\<open>Py3\<close> stands for these versions).
\<close>

function label_sub :: "string \<Rightarrow> string" where
  "label_sub [] = []"
| "label_sub (c # cs) =
     (if prefix ''label{'' (c # cs) then
        (let body = drop 6 (c # cs);
             line = takeWhile (\<lambda>x. x \<noteq> nl) body
         in if CHR ''}'' \<in> set line
            then label_sub (drop (length line - length (takeWhile (\<lambda>x. x \<noteq> CHR ''}'') (rev line))) body)
            else c # label_sub cs)
      else c # label_sub cs)"
  by pat_completeness auto
termination
  by (relation "measure length") auto

declare label_sub.simps [simp del]

definition re_sub_label :: "py_version \<Rightarrow> string \<Rightarrow> exn + string" where
  "re_sub_label v x = (case v of Py2 \<Rightarrow> Inr (label_sub x) | Py3 \<Rightarrow> Inl ReError)"

text \<open>The comprehension of lines 48-49: the filter on the stripped length, then the strip and
  the removal of newlines and carriage returns.\<close>

definition in_window :: "py_version \<Rightarrow> string \<Rightarrow> bool" where
  "in_window v x = (MAX_LENGTH > length (py_strip v x) \<and> length (py_strip v x) > MIN_LENGTH)"

definition retained :: "py_version \<Rightarrow> string \<times> string \<Rightarrow> string \<Rightarrow> string list" where
  "retained v pattern latex = filter (in_window v) (re_findall pattern latex)"

definition clean :: "py_version \<Rightarrow> string \<Rightarrow> string" where
  "clean v x = remove_char cr (remove_char nl (py_strip v x))"

text \<open>The comprehension of line 50; it stops at the first exception.\<close>

fun sub_all :: "py_version \<Rightarrow> string list \<Rightarrow> exn + string list" where
  "sub_all v [] = Inr []"
| "sub_all v (x # xs) =
     (case re_sub_label v x of
        Inl e \<Rightarrow> Inl e
      | Inr y \<Rightarrow> map_sum id ((#) y) (sub_all v xs))"

fun get_formulas_loop ::
  "py_version \<Rightarrow> (string \<times> string) list \<Rightarrow> string \<Rightarrow> string list \<Rightarrow> string list \<Rightarrow>
     exn + (string list \<times> string list)" where
  "get_formulas_loop v [] latex final_result final_result_mod =
     Inr (final_result, final_result_mod)"
| "get_formulas_loop v (pattern # patterns) latex final_result final_result_mod =
     (let result = map (clean v) (retained v pattern latex) in
        case sub_all v result of
          Inl e \<Rightarrow> Inl e
        | Inr result_mod \<Rightarrow>
            get_formulas_loop v patterns latex (final_result @ result)
              (final_result_mod @ result_mod))"

definition get_formulas :: "py_version \<Rightarrow> string \<Rightarrow> exn + (string list \<times> string list)" where
  "get_formulas v latex = get_formulas_loop v PATTERNS latex [] []"

section \<open>\<^verbatim>\<open>latex2formulas.py\<close>: \<^verbatim>\<open>main\<close>\<close>

text \<open>
  An archive is the list of its members, name and content, in the order of
  \<^verbatim>\<open>tar.getnames()\<close>; the corpus is the list of archives in the order of \<^verbatim>\<open>glob.glob\<close>.
  \<^verbatim>\<open>list(set(formulas))\<close> lists the distinct formulas in the iteration order of a Python
  set, which the language leaves open: the order is the parameter \<open>set_list\<close>.
\<close>

fun extract_files ::
  "py_version \<Rightarrow> (string \<times> string) list \<Rightarrow> string list \<times> string list \<Rightarrow>
     exn + (string list \<times> string list)" where
  "extract_files v [] acc = Inr acc"
| "extract_files v ((latex_name, latex) # members) (formulas, formulas_mod) =
     (if CHR ''/'' \<notin> set latex_name then extract_files v members (formulas, formulas_mod)
      else
        (case get_formulas v latex of
           Inl e \<Rightarrow> Inl e
         | Inr (final_result, final_result_mod) \<Rightarrow>
             extract_files v members (formulas @ final_result, formulas_mod @ final_result_mod)))"

fun extract_tars ::
  "py_version \<Rightarrow> (string \<times> string) list list \<Rightarrow> string list \<times> string list \<Rightarrow>
     exn + (string list \<times> string list)" where
  "extract_tars v [] acc = Inr acc"
| "extract_tars v (tar # latex_tars) acc =
     (case extract_files v tar acc of
        Inl e \<Rightarrow> Inl e
      | Inr acc' \<Rightarrow> extract_tars v latex_tars acc')"

definition latex2formulas_main ::
  "py_version \<Rightarrow> (string list \<Rightarrow> string list) \<Rightarrow> (string \<times> string) list list \<Rightarrow>
     exn + (string list \<times> string list)" where
  "latex2formulas_main v set_list latex_tars =
     (case extract_tars v latex_tars ([], []) of
        Inl e \<Rightarrow> Inl e
      | Inr (formulas, formulas_mod) \<Rightarrow> Inr (set_list formulas, formulas_mod))"

text \<open>What the language guarantees of \<^verbatim>\<open>list(set(xs))\<close>: the elements of \<open>xs\<close>, each once.\<close>

definition lists_a_set :: "(string list \<Rightarrow> string list) \<Rightarrow> bool" where
  "lists_a_set set_list = (\<forall>xs. distinct (set_list xs) \<and> set (set_list xs) = set xs)"

section \<open>Concrete environments\<close>

text \<open>Three tool sets: one where every file can be written and every command exits with 0
  without touching the directory, one where no file can be opened for writing, and one
  where the executables are missing.\<close>

definition idle_tools :: tools where
  "idle_tools = \<lparr>can_write = (\<lambda>fs name. True), run_tool = (\<lambda>argv fs. Inr (0, fs))\<rparr>"

definition read_only_tools :: tools where
  "read_only_tools = \<lparr>can_write = (\<lambda>fs name. False), run_tool = (\<lambda>argv fs. Inr (0, fs))\<rparr>"

definition missing_tools :: tools where
  "missing_tools = \<lparr>can_write = (\<lambda>fs name. True), run_tool = (\<lambda>argv fs. Inl OSError)\<rparr>"

definition empty_world :: world where
  "empty_world = \<lparr>files = [], invoked = []\<rparr>"

text \<open>The formulas with a non-null render result, in their original order.\<close>

definition survivors :: "(string \<times> render_result option) list \<Rightarrow> (string \<times> render_result) list" where
  "survivors zipped = List.map_filter (\<lambda>(formula, r). map_option (Pair formula) r) zipped"

text \<open>An index row, and the id the validator reads from a row.\<close>

definition index_row :: "nat \<Rightarrow> string list \<Rightarrow> string" where
  "index_row ctr rendering_setup = py_str ctr @ '' '' @ py_join '' '' rendering_setup"

definition row_id :: "string \<Rightarrow> exn + int" where
  "row_id line = py_int_str (hd (py_split CHR '' '' line))"

section \<open>Test vectors for the digest\<close>

lemma replicate_numeral_Cons: "replicate (numeral k) x = x # replicate (pred_numeral k) x"
  by (simp add: numeral_eq_Suc)

lemma schedule_numeral:
  "schedule (numeral k) ws =
     schedule (pred_numeral k) (rotl 1 (ws ! 2 XOR ws ! 7 XOR ws ! 13 XOR ws ! 15) # ws)"
  by (simp add: numeral_eq_Suc)

lemma sha1_pad_x:
  "sha1_pad ''x'' =
     [120, 128, 0, 0, 0, 0, 0, 0, 0, 0, 0, 0, 0, 0, 0, 0, 0, 0, 0, 0, 0, 0, 0, 0, 0, 0, 0,
      0, 0, 0, 0, 0, 0, 0, 0, 0, 0, 0, 0, 0, 0, 0, 0, 0, 0, 0, 0, 0, 0, 0, 0, 0, 0, 0, 0,
      0, 0, 0, 0, 0, 0, 0, 0, 8]"
  by (simp add: sha1_pad_def len_bytes_def replicate_numeral_Cons)

lemma sha1_schedule_x:
  "schedule 64
     [0x00000008, 0, 0, 0, 0, 0, 0, 0, 0, 0, 0, 0, 0, 0, 0, 0x78800000] =
     [0x802D6FF8, 0xC1065204, 0x00520600, 0xC00F6F4C, 0x20845FB6, 0x800139F8, 0x00038C00,
      0x104191D3, 0x00149F88, 0x00078388, 0x00204000, 0x000021A4, 0x8002C278, 0x001062A0,
      0x00050000, 0x6800F6D5, 0x80084738, 0x280003E9, 0x00003DC0, 0x480419EB, 0x800141B0,
      0x0800783F, 0x80020438, 0xE8000603, 0x00002D60, 0x40010656, 0x00005200, 0x08000F6F,
      0xA8008459, 0x80000138, 0x00000388, 0xDC004191, 0x0800149F, 0x88000783, 0x00002040,
      0xA4000021, 0x000002C2, 0xA0001066, 0x00000500, 0x880000F6, 0x00000840, 0x88000007,
      0x80000038, 0xA8000419, 0x88000147, 0x4000007C, 0x00000200, 0x26000002, 0x2000002E,
      0x6A000106, 0x00000050, 0x1000000F, 0x00000080, 0, 0x88000007, 0xE2000041,
      0x00000010, 0xC4000003, 0x00000020, 0, 0xE2000001, 0x00000010, 0, 0xF1000000,
      0x00000008, 0, 0, 0, 0, 0, 0, 0, 0, 0, 0, 0, 0, 0, 0, 0x78800000]"
  by (simp add: schedule_numeral rotl_def)

lemma sha1_phase1_x:
  "sha1_rounds sha1_ch 0x5A827999
     [0x78800000, 0, 0, 0, 0, 0, 0, 0, 0, 0, 0, 0, 0, 0, 0, 0x00000008, 0xF1000000, 0,
      0x00000010, 0xE2000001]
     (0x67452301, 0xEFCDAB89, 0x98BADCFE, 0x10325476, 0xC3D2E1F0) =
     (0x0E902B64, 0xBFD3408B, 0x75A837C7, 0x3ACA48F8, 0xA07CA767)"
  by (simp add: sha1_ch_def rotl_def)

lemma sha1_phase2_x:
  "sha1_rounds sha1_parity 0x6ED9EBA1
     [0, 0x00000020, 0xC4000003, 0x00000010, 0xE2000041, 0x88000007, 0, 0x00000080,
      0x1000000F, 0x00000050, 0x6A000106, 0x2000002E, 0x26000002, 0x00000200, 0x4000007C,
      0x88000147, 0xA8000419, 0x80000038, 0x88000007, 0x00000840]
     (0x0E902B64, 0xBFD3408B, 0x75A837C7, 0x3ACA48F8, 0xA07CA767) =
     (0xEFDC6218, 0x79BC31EE, 0x63122EEF, 0x10FDC8DD, 0x0934BBFE)"
  by (simp add: sha1_parity_def rotl_def)

lemma sha1_phase3_x:
  "sha1_rounds sha1_maj 0x8F1BBCDC
     [0x880000F6, 0x00000500, 0xA0001066, 0x000002C2, 0xA4000021, 0x00002040, 0x88000783,
      0x0800149F, 0xDC004191, 0x00000388, 0x80000138, 0xA8008459, 0x08000F6F, 0x00005200,
      0x40010656, 0x00002D60, 0xE8000603, 0x80020438, 0x0800783F, 0x800141B0]
     (0xEFDC6218, 0x79BC31EE, 0x63122EEF, 0x10FDC8DD, 0x0934BBFE) =
     (0x7176930E, 0x6CB00D89, 0x4593A1B0, 0x463B20F8, 0xD8C27E9A)"
  by (simp add: sha1_maj_def rotl_def)

lemma sha1_phase4_x:
  "sha1_rounds sha1_parity 0xCA62C1D6
     [0x480419EB, 0x00003DC0, 0x280003E9, 0x80084738, 0x6800F6D5, 0x00050000, 0x001062A0,
      0x8002C278, 0x000021A4, 0x00204000, 0x00078388, 0x00149F88, 0x104191D3, 0x00038C00,
      0x800139F8, 0x20845FB6, 0xC00F6F4C, 0x00520600, 0xC1065204, 0x802D6FF8]
     (0x7176930E, 0x6CB00D89, 0x4593A1B0, 0x463B20F8, 0xD8C27E9A) =
     (0xAAB18A8D, 0xD55C7DFB, 0x12F0207E, 0x2B1F108D, 0xB4893E82)"
  by (simp add: sha1_parity_def rotl_def)

lemma sha1_hexdigest_x: "sha1_hexdigest ''x'' = ''11f6ad8ec52a2984abaafd7c3b516503785c2072''"
  by (simp add: sha1_hexdigest_def sha1_def sha1_pad_x sha1_block_def sha1_schedule_x
      sha1_phase1_x sha1_phase2_x sha1_phase3_x sha1_phase4_x
      hex_word_def hex_digit_def del: sha1_rounds.simps)

lemma sha1_pad_pct_x:
  "sha1_pad ''%x'' =
     [37, 120, 128, 0, 0, 0, 0, 0, 0, 0, 0, 0, 0, 0, 0, 0, 0, 0, 0, 0, 0, 0, 0, 0, 0, 0, 0,
      0, 0, 0, 0, 0, 0, 0, 0, 0, 0, 0, 0, 0, 0, 0, 0, 0, 0, 0, 0, 0, 0, 0, 0, 0, 0, 0, 0,
      0, 0, 0, 0, 0, 0, 0, 0, 16]"
  by (simp add: sha1_pad_def len_bytes_def replicate_numeral_Cons)

lemma sha1_schedule_pct_x:
  "schedule 64
     [0x00000010, 0, 0, 0, 0, 0, 0, 0, 0, 0, 0, 0, 0, 0, 0, 0x25788000] =
     [0x78EFC105, 0x86C2D8E1, 0x00A40C00, 0xCCC48808, 0xF7288700, 0xF882A75D, 0x000A5F88,
      0x7390B74D, 0x0829E62F, 0x8809A993, 0x00408000, 0xA4001AC9, 0x7886D5C7, 0xA0202426,
      0x000A0000, 0x4568489A, 0x78908EA5, 0xF9280A79, 0x8000AFF8, 0x3B400B3C, 0xF0828EF2,
      0x6F089A9B, 0x788408A5, 0x93E809A7, 0x20006FDE, 0xD64202D0, 0x0000A400, 0x3F080488,
      0x09A9088B, 0x788002A5, 0x88000A57, 0x49DC80B7, 0x2F0829E7, 0x938809A9, 0x00004080,
      0xC9A4001A, 0xE20006D5, 0x26A0202C, 0x00000A00, 0xA6880048, 0x00001080, 0x57880002,
      0x788000A5, 0x09A8080B, 0x57880282, 0xBC400092, 0x00000400, 0xBE260001, 0x5E200069,
      0xC26A0202, 0x000000A0, 0xAF100004, 0x00000100, 0, 0x57880002, 0x95E20080,
      0x00000020, 0x2BC40001, 0x00000040, 0, 0x95E20000, 0x00000020, 0, 0x4AF10000,
      0x00000010, 0, 0, 0, 0, 0, 0, 0, 0, 0, 0, 0, 0, 0, 0, 0x25788000]"
  by (simp add: schedule_numeral rotl_def)

lemma sha1_phase1_pct_x:
  "sha1_rounds sha1_ch 0x5A827999
     [0x25788000, 0, 0, 0, 0, 0, 0, 0, 0, 0, 0, 0, 0, 0, 0, 0x00000010, 0x4AF10000, 0,
      0x00000020, 0x95E20000]
     (0x67452301, 0xEFCDAB89, 0x98BADCFE, 0x10325476, 0xC3D2E1F0) =
     (0x6D237736, 0xDBB0F08A, 0x1CEE1357, 0x1487AE49, 0x2FFD0FE1)"
  by (simp add: sha1_ch_def rotl_def)

lemma sha1_phase2_pct_x:
  "sha1_rounds sha1_parity 0x6ED9EBA1
     [0, 0x00000040, 0x2BC40001, 0x00000020, 0x95E20080, 0x57880002, 0, 0x00000100,
      0xAF100004, 0x000000A0, 0xC26A0202, 0x5E200069, 0xBE260001, 0x00000400, 0xBC400092,
      0x57880282, 0x09A8080B, 0x788000A5, 0x57880002, 0x00001080]
     (0x6D237736, 0xDBB0F08A, 0x1CEE1357, 0x1487AE49, 0x2FFD0FE1) =
     (0x562549FF, 0x97DB1EEC, 0xE7CF46D1, 0x6241F69A, 0x7FD6B380)"
  by (simp add: sha1_parity_def rotl_def)

lemma sha1_phase3_pct_x:
  "sha1_rounds sha1_maj 0x8F1BBCDC
     [0xA6880048, 0x00000A00, 0x26A0202C, 0xE20006D5, 0xC9A4001A, 0x00004080, 0x938809A9,
      0x2F0829E7, 0x49DC80B7, 0x88000A57, 0x788002A5, 0x09A9088B, 0x3F080488, 0x0000A400,
      0xD64202D0, 0x20006FDE, 0x93E809A7, 0x788408A5, 0x6F089A9B, 0xF0828EF2]
     (0x562549FF, 0x97DB1EEC, 0xE7CF46D1, 0x6241F69A, 0x7FD6B380) =
     (0xB10FD396, 0xED41C85D, 0xE33D2C8F, 0x9D03A85F, 0x6B7D5098)"
  by (simp add: sha1_maj_def rotl_def)

lemma sha1_phase4_pct_x:
  "sha1_rounds sha1_parity 0xCA62C1D6
     [0x3B400B3C, 0x8000AFF8, 0xF9280A79, 0x78908EA5, 0x4568489A, 0x000A0000, 0xA0202426,
      0x7886D5C7, 0xA4001AC9, 0x00408000, 0x8809A993, 0x0829E62F, 0x7390B74D, 0x000A5F88,
      0xF882A75D, 0xF7288700, 0xCCC48808, 0x00A40C00, 0x86C2D8E1, 0x78EFC105]
     (0xB10FD396, 0xED41C85D, 0xE33D2C8F, 0x9D03A85F, 0x6B7D5098) =
     (0x9091F7D5, 0xB2C61BB0, 0x64F8A3F9, 0xD343C783, 0x091EB14B)"
  by (simp add: sha1_parity_def rotl_def)

lemma sha1_hexdigest_pct_x: "sha1_hexdigest ''%x'' = ''f7d71ad6a293c739fdb380f7e3761bf9ccf1933b''"
  by (simp add: sha1_hexdigest_def sha1_def sha1_pad_pct_x sha1_block_def sha1_schedule_pct_x
      sha1_phase1_pct_x sha1_phase2_pct_x sha1_phase3_pct_x sha1_phase4_pct_x
      hex_word_def hex_digit_def del: sha1_rounds.simps)

section \<open>Properties of \<^verbatim>\<open>formula_to_image\<close>\<close>

lemma length_hex_word: "length (hex_word w) = 8"
  by (simp add: hex_word_def)

lemma length_sha1_hexdigest: "length (sha1_hexdigest s) = 40"
  by (simp add: sha1_hexdigest_def length_hex_word split: prod.splits)

lemma address_x: "address ''x'' = Inr ''11f6ad8ec52a2984abaa''"
  by (simp add: address_def encode_utf8_def sha1_hexdigest_x)

lemma address_pct_x: "address ''%x'' = Inr ''f7d71ad6a293c739fdb3''"
  by (simp add: address_def encode_utf8_def sha1_hexdigest_pct_x)

lemma address_Inr: "address formula = Inr name \<Longrightarrow> name = take 20 (sha1_hexdigest formula)"
  by (auto simp: address_def encode_utf8_def split: if_splits)

lemma strip_chars_leading: "strip_chars ''%'' (CHR ''%'' # f) = strip_chars ''%'' f"
  by (simp add: strip_chars_def strip_where_def)

text \<open>
  C10. When the address is derived, no raster file is in the way, the source artifact is
  written, both external commands exit with 0 and at most one file matches
  \<^verbatim>\<open><address>_basic-*\<close>, \<^verbatim>\<open>formula_to_image\<close> returns the success result
  \<^verbatim>\<open>[[<address>_basic, "basic"]]\<close>. Nothing is asked of the directory the commands leave
  behind beyond that count: zero matches, and no raster image at all, still give success.
\<close>

theorem formula_to_image_success_unchecked:
  assumes "address formula = Inr name"
    and "\<not> isfile (name @ ''.png'') w"
    and "write_file T (name @ ''_basic.tex'') (BASIC_SKELETON (strip_chars ''%'' formula)) w = (Inr (), w1)"
    and "call T (pdflatex_argv (name @ ''_basic'')) w1 = (Inr 0, w2)"
    and "call T (pdftoppm_argv (name @ ''_basic'')) w2 = (Inr 0, w3)"
    and "length (glob_prefix (name @ ''_basic-'') w3) \<le> 1"
  shows "formula_to_image T formula w = (Inr (Some [[name @ ''_basic'', ''basic'']]), w3)"
  using assms by (simp add: formula_to_image_def run_pipeline_def)

theorem formula_to_image_success_unchecked_witness:
  "formula_to_image idle_tools ''x'' empty_world =
     (Inr (Some [[''11f6ad8ec52a2984abaa_basic'', ''basic'']]),
      \<lparr>files = [(''11f6ad8ec52a2984abaa_basic.tex'', BASIC_SKELETON ''x'')],
       invoked = [pdflatex_argv ''11f6ad8ec52a2984abaa_basic'',
                  pdftoppm_argv ''11f6ad8ec52a2984abaa_basic'']\<rparr>)
   \<and> glob_prefix ''11f6ad8ec52a2984abaa_basic-''
        \<lparr>files = [(''11f6ad8ec52a2984abaa_basic.tex'', BASIC_SKELETON ''x'')],
         invoked = [pdflatex_argv ''11f6ad8ec52a2984abaa_basic'',
                    pdftoppm_argv ''11f6ad8ec52a2984abaa_basic'']\<rparr> = []"
proof -
  let ?n = "''11f6ad8ec52a2984abaa''"
  let ?w1 = "\<lparr>files = [(?n @ ''_basic.tex'', BASIC_SKELETON ''x'')], invoked = []\<rparr>"
  let ?w2 = "\<lparr>files = [(?n @ ''_basic.tex'', BASIC_SKELETON ''x'')],
              invoked = [pdflatex_argv (?n @ ''_basic'')]\<rparr>"
  let ?w3 = "\<lparr>files = [(?n @ ''_basic.tex'', BASIC_SKELETON ''x'')],
              invoked = [pdflatex_argv (?n @ ''_basic''), pdftoppm_argv (?n @ ''_basic'')]\<rparr>"
  have a: "address ''x'' = Inr ?n" by (rule address_x)
  have b: "\<not> isfile (?n @ ''.png'') empty_world" by (simp add: isfile_def empty_world_def)
  have c: "write_file idle_tools (?n @ ''_basic.tex'') (BASIC_SKELETON (strip_chars ''%'' ''x''))
             empty_world = (Inr (), ?w1)"
    by (simp add: write_file_def idle_tools_def empty_world_def strip_chars_def strip_where_def)
  have d: "call idle_tools (pdflatex_argv (?n @ ''_basic'')) ?w1 = (Inr 0, ?w2)"
    by (simp add: call_def idle_tools_def)
  have e: "call idle_tools (pdftoppm_argv (?n @ ''_basic'')) ?w2 = (Inr 0, ?w3)"
    by (simp add: call_def idle_tools_def)
  have f: "glob_prefix (?n @ ''_basic-'') ?w3 = []" by (simp add: glob_prefix_def)
  then have g: "length (glob_prefix (?n @ ''_basic-'') ?w3) \<le> 1" by simp
  from formula_to_image_success_unchecked [OF a b c d e g] f show ?thesis by simp
qed

end
